theory Spec2Isabelle
  imports Main "HOL-Library.Sublist"
begin

section \<open>Strings and characters\<close>

text \<open>
  JavaScript strings are sequences of UTF-16 code units. The model uses \<^typ>\<open>string\<close>, whose
  characters are the code units below 256; the white space class \<^verbatim>\<open>\s\<close> and the line
  terminators excluded by \<^verbatim>\<open>.\<close> are cut down to that range accordingly.
\<close>

abbreviation BSL :: char where "BSL \<equiv> CHR 0x5C"
abbreviation DQ :: char where "DQ \<equiv> CHR 0x22"
abbreviation SQ :: char where "SQ \<equiv> CHR 0x27"
abbreviation LF :: char where "LF \<equiv> CHR 0x0A"
abbreviation CR :: char where "CR \<equiv> CHR 0x0D"

definition isSpace :: "char \<Rightarrow> bool" where
  "isSpace c = (c \<in> set [CHR 0x09, LF, CHR 0x0B, CHR 0x0C, CR, CHR 0x20, CHR 0xA0])"

definition isLineTerminator :: "char \<Rightarrow> bool" where
  "isLineTerminator c = (c = LF \<or> c = CR)"








section \<open>Data model\<close>

datatype GherkinType = Given | When | Then | And | But | Other

record Position =
  line :: nat
  character :: nat

record Range =
  rstart :: Position
  rend :: Position

record Location =
  uri :: string
  range :: Range

text \<open>
  A \<^verbatim>\<open>Step\<close>. The two \<^verbatim>\<open>RegExp\<close> objects are kept as the source text they were built from;
  matching goes through the engine below.
\<close>

record Step =
  s_id :: string
  s_reg :: string
  s_partialReg :: string
  s_text :: string
  s_desc :: string
  s_def :: Location
  s_count :: nat
  s_gherkin :: GherkinType
  s_documentation :: string

record Settings =
  strictGherkinValidation :: bool
  stepsInvariants :: bool
  pureTextSteps :: bool

text \<open>
  What the handler takes from outside \<^verbatim>\<open>steps.handler.ts\<close>: the JavaScript \<^verbatim>\<open>RegExp\<close>
  (whether \<^verbatim>\<open>new RegExp(src)\<close> succeeds, and \<^verbatim>\<open>new RegExp(src).test(s)\<close>; the handler builds
  every pattern without flags, so \<^verbatim>\<open>test\<close> keeps no state), the helpers of \<^verbatim>\<open>./util\<close>, which
  is not among the sources, and the comment parser.
\<close>

record Env =
  regexCompiles :: "string \<Rightarrow> bool"
  regexTest :: "string \<Rightarrow> string \<Rightarrow> bool"
  escapeRegExp :: "string \<Rightarrow> string"
  escaprRegExpForPureText :: "string \<Rightarrow> string"
  getMD5Id :: "string \<Rightarrow> string"
  getDocumentation :: "string \<Rightarrow> string"

text \<open>The fields of the class \<^verbatim>\<open>StepsHandler\<close>.\<close>

record StepsHandler =
  elements :: "Step list"
  elementsHash :: "string set"
  elemenstCountHash :: "string \<rightharpoonup> nat"
  settings :: Settings

section \<open>Gherkin keywords\<close>







section \<open>Matching a feature line\<close>






text \<open>
  A lazy run \<^verbatim>\<open>.*?\<close> closed by one character: the shortest run without line terminators
  before the first closing character.
\<close>

definition lazyUntil :: "char \<Rightarrow> string \<Rightarrow> (string \<times> string) option" where
  "lazyUntil close cs =
     (let inner = takeWhile (\<lambda>d. d \<noteq> close \<and> \<not> isLineTerminator d) cs in
      case drop (length inner) cs of
        [] \<Rightarrow> None
      | d # rest \<Rightarrow> if d = close then Some (inner, rest) else None)"























section \<open>Strict types, validation, definition lookup\<close>





datatype DiagnosticSeverity = Error | Warning | Information | Hint






section \<open>Building the index\<close>

text \<open>
  \<^verbatim>\<open>populate\<close>. Expanding a glob and reading the steps of a file go through the file
  system; they are the parameters \<open>glob\<close> and \<open>getFileSteps\<close>.
\<close>

definition addStep :: "Step \<Rightarrow> string set \<times> Step list \<Rightarrow> string set \<times> Step list" where
  "addStep step acc =
     (case acc of (hash, steps) \<Rightarrow>
        if s_id step \<notin> hash then (insert (s_id step) hash, steps @ [step]) else (hash, steps))"

definition addFile ::
  "(string \<Rightarrow> Step list) \<Rightarrow> string \<Rightarrow> string set \<times> Step list \<Rightarrow> string set \<times> Step list" where
  "addFile getFileSteps f acc =
     (case acc of (hash, els) \<Rightarrow>
        (case fold addStep (getFileSteps f) (hash, []) of (hash', steps) \<Rightarrow> (hash', els @ steps)))"

definition stepFiles :: "(string \<Rightarrow> string list) \<Rightarrow> string \<Rightarrow> string list \<Rightarrow> string list" where
  "stepFiles glob root stepsPathes = fold (\<lambda>path files. files @ glob (root @ ''/'' @ path)) stepsPathes []"

definition populate ::
  "(string \<Rightarrow> string list) \<Rightarrow> (string \<Rightarrow> Step list) \<Rightarrow> string \<Rightarrow> string list \<Rightarrow> StepsHandler \<Rightarrow> StepsHandler" where
  "populate glob getFileSteps root stepsPathes h =
     (case fold (addFile getFileSteps) (stepFiles glob root stepsPathes) ({}, []) of
        (hash, els) \<Rightarrow> h\<lparr>elementsHash := hash, elements := els\<rparr>)"

section \<open>A model of the JavaScript regular expressions the handler builds\<close>

text \<open>
  The theorems about the handler hold for every engine \<open>E\<close>. To evaluate the handler on
  concrete templates, this section models \<^verbatim>\<open>new RegExp(src)\<close> without flags for a fragment
  of the pattern language: characters, \<^verbatim>\<open>.\<close>, classes, the escapes
  \<^verbatim>\<open>\d \D \w \W \s \S \t \n \v \f \r\<close>, identity escapes, capturing and \<^verbatim>\<open>(?:)\<close> groups,
  alternation, the quantifiers (greedy and lazy), \<^verbatim>\<open>^\<close> and \<^verbatim>\<open>$\<close>, and back-references
  \<^verbatim>\<open>\1\<close> to \<^verbatim>\<open>\9\<close>. A pattern is parsed to \<open>Parsed r\<close>, rejected as a \<open>SyntaxError\<close> as the
  constructor does, or left aside as \<open>Unsupported\<close> (look-around, named groups, \<^verbatim>\<open>\b\<close>,
  \<^verbatim>\<open>\x\<close>, \<^verbatim>\<open>\u\<close>, \<^verbatim>\<open>\c\<close>, octal escapes of several digits).
\<close>

datatype 'a ParseResult = SyntaxError | Unsupported | Parsed 'a

datatype ClassItem =
  One char | Range char char | Digit | NotDigit | WordChar | NotWordChar | SpaceChar | NotSpaceChar

datatype Re =
    Empty
  | Lit char
  | AnyChar
  | Cls bool "ClassItem list"
  | Bol
  | Eol
  | Group nat Re
  | Backref nat
  | Seq Re Re
  | Alt Re Re
  | Rep nat "nat option" bool Re

definition isDigit :: "char \<Rightarrow> bool" where
  "isDigit c = (let n = (of_char c :: nat) in 48 \<le> n \<and> n \<le> 57)"

definition isLetter :: "char \<Rightarrow> bool" where
  "isLetter c = (let n = (of_char c :: nat) in (65 \<le> n \<and> n \<le> 90) \<or> (97 \<le> n \<and> n \<le> 122))"

definition isLower :: "char \<Rightarrow> bool" where
  "isLower c = (let n = (of_char c :: nat) in 97 \<le> n \<and> n \<le> 122)"

definition isWordChar :: "char \<Rightarrow> bool" where
  "isWordChar c = (isLetter c \<or> isDigit c \<or> c = CHR ''_'')"

definition digitVal :: "char \<Rightarrow> nat" where
  "digitVal c = of_char c - 48"

definition decimal :: "string \<Rightarrow> nat" where
  "decimal ds = foldl (\<lambda>a c. 10 * a + digitVal c) 0 ds"

definition startsWithDigit :: "string \<Rightarrow> bool" where
  "startsWithDigit r = (case r of [] \<Rightarrow> False | c # _ \<Rightarrow> isDigit c)"

text \<open>The number of capturing groups of a pattern, which decides what \<^verbatim>\<open>\1\<close> means.\<close>

fun countGroups :: "bool \<Rightarrow> string \<Rightarrow> nat" where
  "countGroups inClass [] = 0"
| "countGroups inClass [c] = (if \<not> inClass \<and> c = CHR ''('' then 1 else 0)"
| "countGroups inClass (c # d # r) =
     (if c = BSL then countGroups inClass r
      else if inClass then countGroups (c \<noteq> CHR '']'') (d # r)
      else if c = CHR ''['' then countGroups True (d # r)
      else if c = CHR ''('' \<and> d \<noteq> CHR ''?'' then Suc (countGroups False (d # r))
      else countGroups False (d # r))"

definition controlEscape :: "char \<Rightarrow> char option" where
  "controlEscape e =
     (if e = CHR ''t'' then Some (CHR 0x09)
      else if e = CHR ''n'' then Some LF
      else if e = CHR ''v'' then Some (CHR 0x0B)
      else if e = CHR ''f'' then Some (CHR 0x0C)
      else if e = CHR ''r'' then Some CR
      else None)"

definition classOfEscape :: "char \<Rightarrow> ClassItem option" where
  "classOfEscape e =
     (if e = CHR ''d'' then Some Digit
      else if e = CHR ''D'' then Some NotDigit
      else if e = CHR ''w'' then Some WordChar
      else if e = CHR ''W'' then Some NotWordChar
      else if e = CHR ''s'' then Some SpaceChar
      else if e = CHR ''S'' then Some NotSpaceChar
      else None)"

text \<open>An escape inside a class; there \<^verbatim>\<open>\1\<close> is the character with code 1.\<close>

definition classEscape :: "char \<Rightarrow> string \<Rightarrow> (ClassItem \<times> string) ParseResult" where
  "classEscape e r =
     (case classOfEscape e of
        Some it \<Rightarrow> Parsed (it, r)
      | None \<Rightarrow>
          (case controlEscape e of
             Some c \<Rightarrow> Parsed (One c, r)
           | None \<Rightarrow>
               if e = CHR ''b'' then Parsed (One (CHR 0x08), r)
               else if e \<in> set ''cxukpP0'' then Unsupported
               else if isDigit e then
                 (if startsWithDigit r then Unsupported
                  else if digitVal e \<le> 7 then Parsed (One (char_of (digitVal e)), r)
                  else Parsed (One e, r))
               else Parsed (One e, r)))"

definition classAtom :: "char \<Rightarrow> string \<Rightarrow> (ClassItem \<times> string) ParseResult" where
  "classAtom c cs =
     (if c = BSL then (case cs of [] \<Rightarrow> SyntaxError | e # r \<Rightarrow> classEscape e r)
      else Parsed (One c, cs))"

text \<open>The items of a class up to the closing bracket; the fuel is the length of the text.\<close>

fun parseClass :: "nat \<Rightarrow> ClassItem list \<Rightarrow> string \<Rightarrow> (ClassItem list \<times> string) ParseResult" where
  "parseClass 0 acc cs = Unsupported"
| "parseClass (Suc f) acc [] = SyntaxError"
| "parseClass (Suc f) acc (c # cs) =
     (if c = CHR '']'' then Parsed (rev acc, cs)
      else
        (case classAtom c cs of
           SyntaxError \<Rightarrow> SyntaxError
         | Unsupported \<Rightarrow> Unsupported
         | Parsed (a, r) \<Rightarrow>
             (case r of
                [] \<Rightarrow> SyntaxError
              | d # r2 \<Rightarrow>
                  if d = CHR ''-'' then
                    (case r2 of
                       [] \<Rightarrow> SyntaxError
                     | e # r3 \<Rightarrow>
                         if e = CHR '']'' then parseClass f (One d # a # acc) r2
                         else
                           (case classAtom e r3 of
                              SyntaxError \<Rightarrow> SyntaxError
                            | Unsupported \<Rightarrow> Unsupported
                            | Parsed (b, r4) \<Rightarrow>
                                (case (a, b) of
                                   (One x, One y) \<Rightarrow>
                                     if (of_char x :: nat) \<le> of_char y
                                     then parseClass f (Range x y # acc) r4
                                     else SyntaxError
                                 | _ \<Rightarrow> Unsupported)))
                  else parseClass f (a # acc) r)))"

text \<open>
  A quantifier after an atom. A brace that does not open \<^verbatim>\<open>{n}\<close>, \<^verbatim>\<open>{n,}\<close> or \<^verbatim>\<open>{n,m}\<close> is an
  ordinary character.
\<close>

definition braceQuant :: "string \<Rightarrow> (nat \<times> nat option \<times> string) option" where
  "braceQuant r =
     (let ds = takeWhile isDigit r in
      if ds = [] then None
      else
        (case drop (length ds) r of
           [] \<Rightarrow> None
         | c # r1 \<Rightarrow>
             if c = CHR ''}'' then Some (decimal ds, Some (decimal ds), r1)
             else if c = CHR '','' then
               (let es = takeWhile isDigit r1 in
                case drop (length es) r1 of
                  [] \<Rightarrow> None
                | d # r2 \<Rightarrow>
                    if d = CHR ''}'' then
                      Some (decimal ds, if es = [] then None else Some (decimal es), r2)
                    else None)
             else None))"

datatype Quant = NoQuant | BadQuant | Quant nat "nat option" bool string

definition lazyMark :: "nat \<Rightarrow> nat option \<Rightarrow> string \<Rightarrow> Quant" where
  "lazyMark mn mx r =
     (case r of
        [] \<Rightarrow> Quant mn mx True r
      | c # r' \<Rightarrow> if c = CHR ''?'' then Quant mn mx False r' else Quant mn mx True r)"

definition parseQuantifier :: "string \<Rightarrow> Quant" where
  "parseQuantifier cs =
     (case cs of
        [] \<Rightarrow> NoQuant
      | c # r \<Rightarrow>
          if c = CHR ''*'' then lazyMark 0 None r
          else if c = CHR ''+'' then lazyMark 1 None r
          else if c = CHR ''?'' then lazyMark 0 (Some 1) r
          else if c = CHR ''{'' then
            (case braceQuant r of
               None \<Rightarrow> NoQuant
             | Some (mn, mx, r') \<Rightarrow>
                 (case mx of
                    None \<Rightarrow> lazyMark mn mx r'
                  | Some k \<Rightarrow> if k < mn then BadQuant else lazyMark mn mx r'))
          else NoQuant)"

text \<open>An escape outside a class: \<^verbatim>\<open>\1\<close> is a back-reference when the pattern has a group 1.\<close>

definition atomEscape :: "nat \<Rightarrow> char \<Rightarrow> string \<Rightarrow> (Re \<times> bool \<times> string) ParseResult" where
  "atomEscape ng e r =
     (case classOfEscape e of
        Some it \<Rightarrow> Parsed (Cls False [it], True, r)
      | None \<Rightarrow>
          (case controlEscape e of
             Some c \<Rightarrow> Parsed (Lit c, True, r)
           | None \<Rightarrow>
               if e \<in> set ''bBcxukpP0'' then Unsupported
               else if isDigit e then
                 (if startsWithDigit r then Unsupported
                  else if digitVal e \<le> ng then Parsed (Backref (digitVal e), True, r)
                  else if digitVal e \<le> 7 then Parsed (Lit (char_of (digitVal e)), True, r)
                  else Parsed (Lit e, True, r))
               else Parsed (Lit e, True, r)))"

text \<open>An atom that is not a group, with the flag that says whether it may be quantified.\<close>

definition parseAtom :: "nat \<Rightarrow> char \<Rightarrow> string \<Rightarrow> (Re \<times> bool \<times> string) ParseResult" where
  "parseAtom ng c cs =
     (if c = CHR ''.'' then Parsed (AnyChar, True, cs)
      else if c = BSL then (case cs of [] \<Rightarrow> SyntaxError | e # r \<Rightarrow> atomEscape ng e r)
      else if c = CHR ''['' then
        (case cs of
           [] \<Rightarrow> SyntaxError
         | d # r \<Rightarrow>
             if d = CHR ''^'' then
               (case parseClass (Suc (length r)) [] r of
                  SyntaxError \<Rightarrow> SyntaxError
                | Unsupported \<Rightarrow> Unsupported
                | Parsed (items, rest) \<Rightarrow> Parsed (Cls True items, True, rest))
             else
               (case parseClass (Suc (length cs)) [] cs of
                  SyntaxError \<Rightarrow> SyntaxError
                | Unsupported \<Rightarrow> Unsupported
                | Parsed (items, rest) \<Rightarrow> Parsed (Cls False items, True, rest)))
      else if c = CHR ''^'' then Parsed (Bol, False, cs)
      else if c = CHR ''$'' then Parsed (Eol, False, cs)
      else if c = CHR ''*'' \<or> c = CHR ''+'' \<or> c = CHR ''?'' then SyntaxError
      else if c = CHR ''{'' then
        (case braceQuant cs of None \<Rightarrow> Parsed (Lit c, True, cs) | Some q \<Rightarrow> SyntaxError)
      else Parsed (Lit c, True, cs))"

definition mkSeq :: "Re list \<Rightarrow> Re" where
  "mkSeq rs = foldr Seq rs Empty"

fun mkAlt :: "Re list \<Rightarrow> Re \<Rightarrow> Re" where
  "mkAlt [] r = r"
| "mkAlt (a # as) r = Alt a (mkAlt as r)"

text \<open>What follows an opening parenthesis: a capturing group or \<^verbatim>\<open>(?:\<close>.\<close>

definition groupStart :: "string \<Rightarrow> (bool \<times> string) option" where
  "groupStart cs =
     (case cs of
        [] \<Rightarrow> Some (True, cs)
      | c # r \<Rightarrow>
          if c = CHR ''?'' then
            (case r of
               [] \<Rightarrow> None
             | d # r' \<Rightarrow> if d = CHR '':'' then Some (False, r') else None)
          else Some (True, cs))"

definition quantified :: "Quant \<Rightarrow> bool \<Rightarrow> Re \<Rightarrow> string \<Rightarrow> (Re \<times> string) ParseResult" where
  "quantified q quantifiable node rest =
     (case q of
        NoQuant \<Rightarrow> Parsed (node, rest)
      | BadQuant \<Rightarrow> SyntaxError
      | Quant mn mx greedy rest' \<Rightarrow>
          if quantifiable then Parsed (Rep mn mx greedy node, rest') else SyntaxError)"

text \<open>
  A disjunction, up to a closing parenthesis or the end of the pattern: \<open>alts\<close> holds the
  finished alternatives, \<open>sq\<close> the terms of the current one in reverse, \<open>idx\<close> the number of
  groups opened so far. Every call consumes a character, so fuel above the length of the
  pattern is never used up.
\<close>

fun parseDisj ::
  "nat \<Rightarrow> nat \<Rightarrow> nat \<Rightarrow> Re list \<Rightarrow> Re list \<Rightarrow> string \<Rightarrow> (Re \<times> nat \<times> string) ParseResult" where
  "parseDisj 0 ng idx alts sq cs = Unsupported"
| "parseDisj (Suc f) ng idx alts sq [] = Parsed (mkAlt alts (mkSeq (rev sq)), idx, [])"
| "parseDisj (Suc f) ng idx alts sq (c # cs) =
     (if c = CHR '')'' then Parsed (mkAlt alts (mkSeq (rev sq)), idx, c # cs)
      else if c = CHR ''|'' then parseDisj f ng idx (alts @ [mkSeq (rev sq)]) [] cs
      else if c = CHR ''('' then
        (case groupStart cs of
           None \<Rightarrow> Unsupported
         | Some (capturing, body) \<Rightarrow>
             (case parseDisj f ng (if capturing then Suc idx else idx) [] [] body of
                SyntaxError \<Rightarrow> SyntaxError
              | Unsupported \<Rightarrow> Unsupported
              | Parsed (r, idx2, rest) \<Rightarrow>
                  (case rest of
                     [] \<Rightarrow> SyntaxError
                   | d # rest' \<Rightarrow>
                       (case quantified (parseQuantifier rest') True
                               (if capturing then Group (Suc idx) r else r) rest' of
                          SyntaxError \<Rightarrow> SyntaxError
                        | Unsupported \<Rightarrow> Unsupported
                        | Parsed (node, rest'') \<Rightarrow> parseDisj f ng idx2 alts (node # sq) rest''))))
      else
        (case parseAtom ng c cs of
           SyntaxError \<Rightarrow> SyntaxError
         | Unsupported \<Rightarrow> Unsupported
         | Parsed (atom, quantifiable, rest) \<Rightarrow>
             (case quantified (parseQuantifier rest) quantifiable atom rest of
                SyntaxError \<Rightarrow> SyntaxError
              | Unsupported \<Rightarrow> Unsupported
              | Parsed (node, rest') \<Rightarrow> parseDisj f ng idx alts (node # sq) rest')))"

definition parseRegExp :: "string \<Rightarrow> Re ParseResult" where
  "parseRegExp p =
     (case parseDisj (Suc (length p)) (countGroups False p) 0 [] [] p of
        SyntaxError \<Rightarrow> SyntaxError
      | Unsupported \<Rightarrow> Unsupported
      | Parsed (r, idx, rest) \<Rightarrow> if rest = [] then Parsed r else SyntaxError)"

text \<open>
  Matching by backtracking. A state is the number of characters consumed, the rest of the
  input and the captures; a matcher returns the states it can end in, in the order in
  which the engine tries them.
\<close>

type_synonym MState = "nat \<times> string \<times> (nat \<Rightarrow> string option)"

definition classItemMatches :: "ClassItem \<Rightarrow> char \<Rightarrow> bool" where
  "classItemMatches it c =
     (case it of
        One d \<Rightarrow> c = d
      | Range lo hi \<Rightarrow> (of_char lo :: nat) \<le> of_char c \<and> (of_char c :: nat) \<le> of_char hi
      | Digit \<Rightarrow> isDigit c
      | NotDigit \<Rightarrow> \<not> isDigit c
      | WordChar \<Rightarrow> isWordChar c
      | NotWordChar \<Rightarrow> \<not> isWordChar c
      | SpaceChar \<Rightarrow> isSpace c
      | NotSpaceChar \<Rightarrow> \<not> isSpace c)"

definition stepChar :: "(char \<Rightarrow> bool) \<Rightarrow> MState \<Rightarrow> MState list" where
  "stepChar P st =
     (case st of (i, rest, cp) \<Rightarrow>
        (case rest of [] \<Rightarrow> [] | c # cs \<Rightarrow> if P c then [(Suc i, cs, cp)] else []))"

fun groupsOf :: "Re \<Rightarrow> nat list" where
  "groupsOf (Group k r) = k # groupsOf r"
| "groupsOf (Seq a b) = groupsOf a @ groupsOf b"
| "groupsOf (Alt a b) = groupsOf a @ groupsOf b"
| "groupsOf (Rep mn mx g r) = groupsOf r"
| "groupsOf _ = []"

definition clearCaps :: "nat list \<Rightarrow> MState \<Rightarrow> MState" where
  "clearCaps ks st = (case st of (i, rest, cp) \<Rightarrow> (i, rest, \<lambda>k. if k \<in> set ks then None else cp k))"

definition setCap :: "nat \<Rightarrow> MState \<Rightarrow> MState \<Rightarrow> MState" where
  "setCap k st0 st =
     (case st of (j, rest, cp) \<Rightarrow> (j, rest, cp(k := Some (take (j - fst st0) (fst (snd st0))))))"

definition backref :: "nat \<Rightarrow> MState \<Rightarrow> MState list" where
  "backref k st =
     (case st of (i, rest, cp) \<Rightarrow>
        (case cp k of
           None \<Rightarrow> [st]
         | Some w \<Rightarrow> if prefix w rest then [(i + length w, drop (length w) rest, cp)] else []))"

text \<open>
  The repetition of a body, as \<^verbatim>\<open>RepeatMatcher\<close> of the language definition: once the
  minimum is reached an iteration that consumes nothing is rejected, a greedy repetition
  tries another iteration before stopping and a lazy one stops first. An iteration lowers
  the minimum or consumes a character, so the fuel \<open>Suc (mn + length rest)\<close> given below is
  never used up.
\<close>

fun repeatM ::
  "(MState \<Rightarrow> MState list) \<Rightarrow> nat \<Rightarrow> nat \<Rightarrow> nat option \<Rightarrow> bool \<Rightarrow> MState \<Rightarrow> MState list" where
  "repeatM body 0 mn mx greedy x = []"
| "repeatM body (Suc f) mn mx greedy x =
     (if mx = Some 0 then [x]
      else if mn \<noteq> 0 then
        concat (map (\<lambda>y. repeatM body f (mn - 1) (map_option (\<lambda>k. k - 1) mx) greedy y) (body x))
      else if greedy then
        concat (map (\<lambda>y. if fst y = fst x then []
                          else repeatM body f 0 (map_option (\<lambda>k. k - 1) mx) greedy y) (body x)) @ [x]
      else
        x # concat (map (\<lambda>y. if fst y = fst x then []
                              else repeatM body f 0 (map_option (\<lambda>k. k - 1) mx) greedy y) (body x)))"

fun matchRe :: "Re \<Rightarrow> MState \<Rightarrow> MState list" where
  "matchRe Empty st = [st]"
| "matchRe (Lit c) st = stepChar (\<lambda>d. d = c) st"
| "matchRe AnyChar st = stepChar (\<lambda>d. \<not> isLineTerminator d) st"
| "matchRe (Cls neg items) st = stepChar (\<lambda>d. list_ex (\<lambda>it. classItemMatches it d) items \<noteq> neg) st"
| "matchRe Bol st = (if fst st = 0 then [st] else [])"
| "matchRe Eol st = (if fst (snd st) = [] then [st] else [])"
| "matchRe (Group k r) st = map (setCap k st) (matchRe r st)"
| "matchRe (Backref k) st = backref k st"
| "matchRe (Seq a b) st = concat (map (matchRe b) (matchRe a st))"
| "matchRe (Alt a b) st = matchRe a st @ matchRe b st"
| "matchRe (Rep mn mx greedy r) st =
     repeatM (\<lambda>x. matchRe r (clearCaps (groupsOf r) x)) (Suc (mn + length (fst (snd st)))) mn mx greedy st"

text \<open>\<^verbatim>\<open>test\<close>: the pattern is tried at every start position.\<close>

definition matchesAt :: "Re \<Rightarrow> string \<Rightarrow> nat \<Rightarrow> bool" where
  "matchesAt r s i = (matchRe r (i, drop i s, \<lambda>k. None) \<noteq> [])"

definition searchRe :: "Re \<Rightarrow> string \<Rightarrow> bool" where
  "searchRe r s = list_ex (matchesAt r s) [0 ..< Suc (length s)]"

definition jsCompiles :: "string \<Rightarrow> bool" where
  "jsCompiles p = (case parseRegExp p of Parsed r \<Rightarrow> True | _ \<Rightarrow> False)"

definition jsTest :: "string \<Rightarrow> string \<Rightarrow> bool" where
  "jsTest p s = (case parseRegExp p of Parsed r \<Rightarrow> searchRe r s | _ \<Rightarrow> False)"

text \<open>
  \<^verbatim>\<open>str.replace(re, replacement)\<close> for a global pattern and a replacement text without
  \<^verbatim>\<open>$\<close>: the matches from left to right, the search going on where a match ended (one
  character further after an empty match). \<open>skip\<close> counts the characters of the last match
  still to pass, \<open>i\<close> the position reached.
\<close>

fun replaceMatches :: "Re \<Rightarrow> string \<Rightarrow> nat \<Rightarrow> nat \<Rightarrow> string \<Rightarrow> string" where
  "replaceMatches r rep skip i [] =
     (if skip = 0 \<and> matchRe r (i, [], \<lambda>k. None) \<noteq> [] then rep else [])"
| "replaceMatches r rep (Suc k) i (c # cs) = replaceMatches r rep k (Suc i) cs"
| "replaceMatches r rep 0 i (c # cs) =
     (case matchRe r (i, c # cs, \<lambda>k. None) of
        [] \<Rightarrow> c # replaceMatches r rep 0 (Suc i) cs
      | st # sts \<Rightarrow>
          if fst st = i then rep @ c # replaceMatches r rep 0 (Suc i) cs
          else rep @ replaceMatches r rep (fst st - Suc i) (Suc i) cs)"

definition replaceRegExp :: "string \<Rightarrow> string \<Rightarrow> string \<Rightarrow> string" where
  "replaceRegExp pattern rep s =
     (case parseRegExp pattern of Parsed r \<Rightarrow> replaceMatches r rep 0 0 s | _ \<Rightarrow> s)"

section \<open>Compiling a step template\<close>

text \<open>\<^verbatim>\<open>str.split(sep).join(j)\<close> for strings \<open>sep\<close> and \<open>j\<close>.\<close>

function replaceAll :: "string \<Rightarrow> string \<Rightarrow> string \<Rightarrow> string" where
  "replaceAll pat rep [] = []"
| "replaceAll pat rep (c # cs) =
     (if pat \<noteq> [] \<and> prefix pat (c # cs) then rep @ replaceAll pat rep (drop (length pat) (c # cs))
      else c # replaceAll pat rep cs)"
  by pat_completeness auto
termination
  by (relation "measure (\<lambda>(pat, rep, s). length s)") (auto simp: neq_Nil_conv)

fun joinWith :: "string \<Rightarrow> string list \<Rightarrow> string" where
  "joinWith sep [] = []"
| "joinWith sep [x] = x"
| "joinWith sep (x # y # ys) = x @ sep @ joinWith sep (y # ys)"

definition splitJoin :: "string \<Rightarrow> string \<Rightarrow> string \<Rightarrow> string" where
  "splitJoin sep j s = (if sep = [] then joinWith j (map (\<lambda>c. [c]) s) else replaceAll sep j s)"

text \<open>The replacement texts of \<^verbatim>\<open>specialParameters\<close>, in the order of the table.\<close>

definition anyChange :: string where "anyChange = ''.*''"
definition floatChange :: string where "floatChange = ''-?'' @ [BSL] @ ''d*'' @ [BSL] @ ''.?'' @ [BSL] @ ''d+''"
definition intChange :: string where "intChange = ''-?'' @ [BSL] @ ''d+''"
definition quotedChange :: string where "quotedChange = [DQ] @ ''[^'' @ [DQ] @ '']+'' @ [DQ]"
definition wordChange :: string where "wordChange = ''[^'' @ [BSL] @ ''s]+''"
definition stringChange :: string where
  "stringChange = ''('' @ [DQ] @ ''|'' @ [SQ] @ '')[^'' @ [BSL] @ ''1]*'' @ [BSL] @ ''1''"

definition specialChanges :: "string list" where
  "specialChanges = [anyChange, floatChange, intChange, quotedChange, wordChange, stringChange]"

text \<open>\<^verbatim>\<open>step.replace(/#{(.*?)}/g, '.*')\<close>.\<close>

function replaceInterpolation :: "string \<Rightarrow> string" where
  "replaceInterpolation [] = []"
| "replaceInterpolation [c] = [c]"
| "replaceInterpolation (c # d # cs) =
     (if c = CHR ''#'' \<and> d = CHR ''{'' then
        (case lazyUntil (CHR ''}'') cs of
           Some (inner, rest) \<Rightarrow> anyChange @ replaceInterpolation rest
         | None \<Rightarrow> c # replaceInterpolation (d # cs))
      else c # replaceInterpolation (d # cs))"
  by pat_completeness auto
termination
proof (relation "measure length")
  fix c d :: char and cs x2 inner rest
  assume "lazyUntil (CHR ''}'') cs = Some x2" and "(inner, rest) = x2"
  then have "\<exists>n. drop n cs = CHR ''}'' # rest"
    by (auto simp: lazyUntil_def Let_def split: list.splits if_splits)
  then obtain n where "drop n cs = CHR ''}'' # rest" ..
  then have "length (drop n cs) = Suc (length rest)" by simp
  then show "(rest, c # d # cs) \<in> measure length" by simp
qed auto

text \<open>The first loop of \<^verbatim>\<open>getRegTextForStep\<close> and \<^verbatim>\<open>getRegTextForPureStep\<close>.\<close>

definition applySpecialParameters :: "string \<Rightarrow> string" where
  "applySpecialParameters step =
     replaceAll ''{string}'' stringChange
       (replaceAll ''{word}'' wordChange
         (replaceAll ''{stringInDoubleQuotes}'' quotedChange
           (replaceAll ''{int}'' intChange
             (replaceAll ''{float}'' floatChange
               (replaceInterpolation step)))))"

text \<open>\<^verbatim>\<open>step.replace(/\(([a-z]+)\)/g, '($1)?')\<close>.\<close>

function replaceOptional :: "string \<Rightarrow> string" where
  "replaceOptional [] = []"
| "replaceOptional (c # cs) =
     (if c = CHR ''('' \<and> takeWhile isLower cs \<noteq> []
         \<and> prefix '')'' (dropWhile isLower cs)
      then c # takeWhile isLower cs @ '')?'' @ replaceOptional (tl (dropWhile isLower cs))
      else c # replaceOptional cs)"
  by pat_completeness auto
termination
proof (relation "measure length")
  fix c :: char and cs
  have "length (tl (dropWhile isLower cs)) \<le> length (dropWhile isLower cs)" by simp
  also have "\<dots> \<le> length cs" by (rule length_dropWhile_le)
  finally show "(tl (dropWhile isLower cs), c # cs) \<in> measure length" by simp
qed auto

text \<open>
  \<^verbatim>\<open>step.replace(/([a-zA-Z]+)(?:\/([a-zA-Z]+))+/g, (match) => `(${match.replace(/\//g, '|')})`)\<close>:
  \<open>slashWords\<close> reads the words that follow, each after a slash.
\<close>

function slashWords :: "string \<Rightarrow> string list \<times> string" where
  "slashWords [] = ([], [])"
| "slashWords [c] = ([], [c])"
| "slashWords (c # d # cs) =
     (if c = CHR ''/'' \<and> isLetter d then
        (case slashWords (dropWhile isLetter cs) of
           (ws, rest) \<Rightarrow> ((d # takeWhile isLetter cs) # ws, rest))
      else ([], c # d # cs))"
  by pat_completeness auto
termination
  by (relation "measure length") (auto simp: length_dropWhile_le less_Suc_eq_le le_SucI)

lemma slashWords_length: "length (snd (slashWords s)) \<le> length s"
proof (induction s rule: slashWords.induct)
  case (3 c d cs)
  show ?case
  proof (cases "c = CHR ''/'' \<and> isLetter d")
    case True
    have "length (dropWhile isLetter cs) \<le> length cs" by (rule length_dropWhile_le)
    then show ?thesis using 3 True by (auto split: prod.splits)
  next
    case False
    then show ?thesis by auto
  qed
qed simp_all

function replaceAlternatives :: "string \<Rightarrow> string" where
  "replaceAlternatives [] = []"
| "replaceAlternatives (c # cs) =
     (if isLetter c \<and> fst (slashWords (dropWhile isLetter cs)) \<noteq> [] then
        ''('' @ joinWith ''|'' ((c # takeWhile isLetter cs) # fst (slashWords (dropWhile isLetter cs)))
          @ '')'' @ replaceAlternatives (snd (slashWords (dropWhile isLetter cs)))
      else c # replaceAlternatives cs)"
  by pat_completeness auto
termination
proof (relation "measure length")
  fix c :: char and cs
  have "length (snd (slashWords (dropWhile isLetter cs))) \<le> length (dropWhile isLetter cs)"
    by (rule slashWords_length)
  also have "\<dots> \<le> length cs" by (rule length_dropWhile_le)
  finally show "(snd (slashWords (dropWhile isLetter cs)), c # cs) \<in> measure length" by simp
qed auto

text \<open>
  \<^verbatim>\<open>step.replace(/([^\\]|^){(?![\d,])(.*?)}/g, '$1.*')\<close>. \<open>cucumberBrace\<close> is the part of the
  pattern from the brace on; the character before the brace belongs to the match, so the
  search goes on after the closing brace.
\<close>

definition cucumberBrace :: "string \<Rightarrow> string option" where
  "cucumberBrace s =
     (case s of
        [] \<Rightarrow> None
      | c # r \<Rightarrow>
          if c = CHR ''{'' \<and> \<not> (case r of [] \<Rightarrow> False | d # _ \<Rightarrow> isDigit d \<or> d = CHR '','') then
            map_option snd (lazyUntil (CHR ''}'') r)
          else None)"

function replaceCucumber :: "bool \<Rightarrow> string \<Rightarrow> string" where
  "replaceCucumber atStart [] = []"
| "replaceCucumber atStart (c # cs) =
     (if c \<noteq> BSL \<and> cucumberBrace cs \<noteq> None then
        c # anyChange @ replaceCucumber False (the (cucumberBrace cs))
      else if atStart \<and> cucumberBrace (c # cs) \<noteq> None then
        anyChange @ replaceCucumber False (the (cucumberBrace (c # cs)))
      else c # replaceCucumber False cs)"
  by pat_completeness auto
termination
proof (relation "measure (\<lambda>(a, s). length s)")
  have len: "\<And>s rest. cucumberBrace s = Some rest \<Longrightarrow> length rest < length s"
  proof -
    fix s rest
    assume a: "cucumberBrace s = Some rest"
    then obtain c r where s: "s = c # r" by (cases s) (auto simp: cucumberBrace_def)
    from a s obtain inner where "lazyUntil (CHR ''}'') r = Some (inner, rest)"
      by (auto simp: cucumberBrace_def split: if_splits)
    then have "\<exists>n. drop n r = CHR ''}'' # rest"
      by (auto simp: lazyUntil_def Let_def split: list.splits if_splits)
    then obtain n where "drop n r = CHR ''}'' # rest" ..
    then have "length (drop n r) = Suc (length rest)" by simp
    then show "length rest < length s" using s by simp
  qed
  fix atStart :: bool and c :: char and cs
  assume "c \<noteq> BSL \<and> cucumberBrace cs \<noteq> None"
  then obtain rest where r: "cucumberBrace cs = Some rest" by auto
  from len [OF r] r show "((False, the (cucumberBrace cs)), atStart, c # cs) \<in> measure (\<lambda>(a, s). length s)"
    by simp
next
  have len: "\<And>s rest. cucumberBrace s = Some rest \<Longrightarrow> length rest < length s"
  proof -
    fix s rest
    assume a: "cucumberBrace s = Some rest"
    then obtain c r where s: "s = c # r" by (cases s) (auto simp: cucumberBrace_def)
    from a s obtain inner where "lazyUntil (CHR ''}'') r = Some (inner, rest)"
      by (auto simp: cucumberBrace_def split: if_splits)
    then have "\<exists>n. drop n r = CHR ''}'' # rest"
      by (auto simp: lazyUntil_def Let_def split: list.splits if_splits)
    then obtain n where "drop n r = CHR ''}'' # rest" ..
    then have "length (drop n r) = Suc (length rest)" by simp
    then show "length rest < length s" using s by simp
  qed
  fix atStart :: bool and c :: char and cs
  assume "atStart \<and> cucumberBrace (c # cs) \<noteq> None"
  then obtain rest where r: "cucumberBrace (c # cs) = Some rest" by auto
  from len [OF r] r
  show "((False, the (cucumberBrace (c # cs))), atStart, c # cs) \<in> measure (\<lambda>(a, s). length s)"
    by simp
qed auto

text \<open>\<^verbatim>\<open>getRegTextForStep\<close> and \<^verbatim>\<open>getRegTextForPureStep\<close>.\<close>

definition getRegTextForStep :: "Env \<Rightarrow> string \<Rightarrow> string" where
  "getRegTextForStep E step =
     escapeRegExp E
       (replaceCucumber True (replaceAlternatives (replaceOptional (applySpecialParameters step))))"

definition getRegTextForPureStep :: "Env \<Rightarrow> string \<Rightarrow> string" where
  "getRegTextForPureStep E step =
     ''^'' @ fold (\<lambda>change s. splitJoin (escaprRegExpForPureText E change) change s) specialChanges
               (escaprRegExpForPureText E (applySpecialParameters step)) @ ''$''"

definition regTextFor :: "Env \<Rightarrow> Settings \<Rightarrow> string \<Rightarrow> string" where
  "regTextFor E S step =
     (if pureTextSteps S then getRegTextForPureStep E step else getRegTextForStep E step)"

text \<open>
  The loop of \<^verbatim>\<open>getPartialRegParts\<close>, with its variables \<^verbatim>\<open>currString\<close>, \<^verbatim>\<open>bracesMode\<close>,
  \<^verbatim>\<open>openingBracesNum\<close>, \<^verbatim>\<open>closingBracesNum\<close> and \<^verbatim>\<open>res\<close>.
\<close>

fun partsLoop :: "string \<Rightarrow> bool \<Rightarrow> nat \<Rightarrow> nat \<Rightarrow> string list \<Rightarrow> string \<Rightarrow> string list" where
  "partsLoop cur bm opn cls res [] = res @ [cur]"
| "partsLoop cur bm opn cls res (x # xs) =
     (if bm then
        partsLoop (cur @ [x])
          (\<not> (x = CHR '')'' \<and> opn = Suc cls))
          (if x = CHR ''('' then Suc opn else opn)
          (if x = CHR '')'' then Suc cls else cls)
          res xs
      else if x = CHR '' '' then partsLoop [] False opn cls (res @ [cur]) xs
      else if x = CHR ''('' then partsLoop (cur @ ''('') True 1 0 res xs
      else partsLoop (cur @ [x]) False opn cls res xs)"

definition getPartialRegParts :: "Env \<Rightarrow> Settings \<Rightarrow> string \<Rightarrow> string list" where
  "getPartialRegParts E S txt = partsLoop [] False 0 0 [] (regTextFor E S txt)"

definition getPartialRegText :: "Env \<Rightarrow> Settings \<Rightarrow> string \<Rightarrow> string" where
  "getPartialRegText E S regText =
     (let joined = joinWith ''( |$)'' (map (\<lambda>el. ''('' @ el @ ''|$)'') (getPartialRegParts E S regText))
      in if prefix ''^'' joined then joined else ''^'' @ joined)"

text \<open>
  \<^verbatim>\<open>getTextForStep\<close>. Its four patterns are written as in the source and read by the model
  of the engine; \<^verbatim>\<open>split(...).join('{string}')\<close> works on plain strings.
\<close>

definition removeBackslashes :: "string \<Rightarrow> string" where
  "removeBackslashes step = replaceRegExp [BSL, BSL] [] step"

definition removeAnchors :: "string \<Rightarrow> string" where
  "removeAnchors step = replaceRegExp (''^'' @ [BSL] @ ''^|'' @ [BSL] @ ''$$'') [] step"

definition restorePlaceholders :: "string \<Rightarrow> string" where
  "restorePlaceholders step =
     replaceRegExp (''-'' @ [BSL] @ ''?d'' @ [BSL] @ ''*'' @ [BSL] @ ''.'' @ [BSL] @ ''?d'' @ [BSL] @ ''+'') ''{float}''
       (replaceRegExp (''-'' @ [BSL] @ ''?d'' @ [BSL] @ ''+'') ''{int}''
         (replaceRegExp ([BSL] @ ''[^s'' @ [BSL] @ '']'' @ [BSL] @ ''+'') ''{word}''
           (replaceRegExp ([DQ] @ [BSL] @ ''[^'' @ [DQ] @ [BSL] @ '']'' @ [BSL] @ ''+'' @ [DQ]) ''{stringInDoubleQuotes}''
             (splitJoin (''('' @ [DQ] @ ''|'' @ [SQ] @ '')[^1]*1'') ''{string}'' step))))"

definition getTextForStep :: "string \<Rightarrow> string" where
  "getTextForStep step = restorePlaceholders (removeAnchors (removeBackslashes step))"


section \<open>Invariants of a template and its steps\<close>







definition getElementCount :: "StepsHandler \<Rightarrow> string \<Rightarrow> nat" where
  "getElementCount h i = (case elemenstCountHash h i of None \<Rightarrow> 0 | Some n \<Rightarrow> n)"

text \<open>The body of \<^verbatim>\<open>.map\<close> in \<^verbatim>\<open>getSteps\<close>.\<close>

definition makeStep ::
  "Env \<Rightarrow> StepsHandler \<Rightarrow> string \<Rightarrow> Location \<Rightarrow> GherkinType \<Rightarrow> string \<Rightarrow> string \<Rightarrow> Step" where
  "makeStep E h desc df gherkin documentation step =
     (let regText = regTextFor E (settings h) step;
          partialText = getPartialRegText E (settings h) step;
          txt = (if pureTextSteps (settings h) then step else getTextForStep step);
          i = ''step'' @ getMD5Id E txt
      in \<lparr>s_id = i,
          s_reg = regText,
          s_partialReg = (if regexCompiles E partialText then partialText else regText),
          s_text = txt,
          s_desc = desc,
          s_def = df,
          s_count = getElementCount h i,
          s_gherkin = gherkin,
          s_documentation = documentation\<rparr>)"



text \<open>
  Modelled from the spec: \<^verbatim>\<open>escapeRegExp\<close> and \<^verbatim>\<open>escaprRegExpForPureText\<close> of \<^verbatim>\<open>./util\<close>, which
  is not among the sources. The spec says that they escape regex metacharacters and that
  the way back strips the escape backslashes; which characters count is not said, so the
  set is the parameter \<open>metas\<close>. \<open>modelEnv\<close> puts them together with the model of the engine;
  the digest and the comment parser, on which no property below depends, are the identity.
  \<open>regexMetas\<close> are the characters with a meaning in a pattern.
\<close>

definition regexMetas :: string where
  "regexMetas = ''.*+?^${}()|[]'' @ [BSL]"

definition escapeChars :: "string \<Rightarrow> string \<Rightarrow> string" where
  "escapeChars metas s = concat (map (\<lambda>c. if c \<in> set metas then [BSL, c] else [c]) s)"

definition modelEnv :: "string \<Rightarrow> string \<Rightarrow> Env" where
  "modelEnv metas pureMetas =
     \<lparr>regexCompiles = jsCompiles, regexTest = jsTest,
      escapeRegExp = escapeChars metas, escaprRegExpForPureText = escapeChars pureMetas,
      getMD5Id = (\<lambda>s. s), getDocumentation = (\<lambda>s. s)\<rparr>"

section \<open>Handlers and steps of the examples\<close>


definition plainSettings :: Settings where
  "plainSettings = \<lparr>strictGherkinValidation = False, stepsInvariants = False, pureTextSteps = False\<rparr>"


section \<open>Properties of the index\<close>

lemma addStep_pair:
  "addStep x (H, acc) = (if s_id x \<notin> H then (insert (s_id x) H, acc @ [x]) else (H, acc))"
  by (simp add: addStep_def)

lemma find_app:
  "find P (xs @ ys) = (case find P xs of None \<Rightarrow> find P ys | Some x \<Rightarrow> Some x)"
  by (induction xs) simp_all

lemma addStep_fold_acc:
  "fold addStep xs (H, acc) = (case fold addStep xs (H, []) of (H', ys) \<Rightarrow> (H', acc @ ys))"
proof (induction xs arbitrary: H acc rule: rev_induct)
  case Nil
  show ?case by simp
next
  case (snoc x xs)
  obtain H' ys where r: "fold addStep xs (H, []) = (H', ys)" by (cases "fold addStep xs (H, [])")
  have "fold addStep xs (H, acc) = (H', acc @ ys)" using snoc [of H acc] r by simp
  then show ?case using r by (simp add: addStep_pair)
qed

lemma addFile_eq: "addFile fs f (H, els) = fold addStep (fs f) (H, els)"
  by (simp add: addFile_def addStep_fold_acc [of "fs f" H els] split: prod.splits)

lemma addFile_fold:
  "fold (addFile fs) files (H, els) = fold addStep (concat (map fs files)) (H, els)"
proof (induction files arbitrary: H els)
  case Nil
  show ?case by simp
next
  case (Cons f files)
  obtain H' els' where r: "fold addStep (fs f) (H, els) = (H', els')"
    by (cases "fold addStep (fs f) (H, els)")
  show ?case using Cons [of H' els'] r by (simp add: addFile_eq)
qed

lemma addStep_fold_inv:
  assumes "H = s_id ` set acc" and "distinct (map s_id acc)"
  shows "fst (fold addStep xs (H, acc)) = s_id ` set (snd (fold addStep xs (H, acc)))
       \<and> distinct (map s_id (snd (fold addStep xs (H, acc))))
       \<and> (\<forall>i. find (\<lambda>s. s_id s = i) (snd (fold addStep xs (H, acc)))
              = find (\<lambda>s. s_id s = i) (acc @ xs))"
  using assms
proof (induction xs arbitrary: H acc)
  case Nil
  then show ?case by simp
next
  case (Cons x xs)
  show ?case
  proof (cases "s_id x \<in> H")
    case True
    then obtain y where y: "y \<in> set acc" "s_id y = s_id x" using Cons.prems by auto
    have f: "\<And>i. find (\<lambda>s. s_id s = i) (acc @ x # xs) = find (\<lambda>s. s_id s = i) (acc @ xs)"
    proof -
      fix i
      show "find (\<lambda>s. s_id s = i) (acc @ x # xs) = find (\<lambda>s. s_id s = i) (acc @ xs)"
      proof (cases "find (\<lambda>s. s_id s = i) acc")
        case None
        then have "s_id x \<noteq> i" using y by (auto simp: find_None_iff)
        then show ?thesis using None by (simp add: find_app)
      next
        case (Some a)
        then show ?thesis by (simp add: find_app)
      qed
    qed
    have "fold addStep (x # xs) (H, acc) = fold addStep xs (H, acc)"
      using True by (simp add: addStep_pair)
    then show ?thesis using Cons.IH [OF Cons.prems] f by simp
  next
    case False
    have step: "fold addStep (x # xs) (H, acc) = fold addStep xs (insert (s_id x) H, acc @ [x])"
      using False by (simp add: addStep_pair)
    have a: "insert (s_id x) H = s_id ` set (acc @ [x])" using Cons.prems by auto
    have b: "distinct (map s_id (acc @ [x]))" using Cons.prems False by auto
    show ?thesis using Cons.IH [OF a b] step by simp
  qed
qed

text \<open>
  C8. After \<^verbatim>\<open>populate\<close> no id occurs twice in the element list; for every id the step
  the index holds is the first step with that id in processing order (the files in glob
  order, the steps of a file in extraction order), so every later step with that id was
  skipped; and \<^verbatim>\<open>elementsHash\<close> holds exactly the ids of the elements.
\<close>

theorem populate_first_wins:
  "distinct (map s_id (elements (populate glob getFileSteps root stepsPathes h)))
   \<and> (\<forall>i. find (\<lambda>s. s_id s = i) (elements (populate glob getFileSteps root stepsPathes h))
          = find (\<lambda>s. s_id s = i) (concat (map getFileSteps (stepFiles glob root stepsPathes))))
   \<and> elementsHash (populate glob getFileSteps root stepsPathes h)
       = s_id ` set (elements (populate glob getFileSteps root stepsPathes h))"
proof -
  let ?xs = "concat (map getFileSteps (stepFiles glob root stepsPathes))"
  obtain H els where r: "fold addStep ?xs ({}, []) = (H, els)"
    by (cases "fold addStep ?xs ({}, [])")
  have p: "populate glob getFileSteps root stepsPathes h = h\<lparr>elementsHash := H, elements := els\<rparr>"
    by (simp add: populate_def addFile_fold r)
  have "{} = s_id ` set []" "distinct (map s_id [])" by simp_all
  from addStep_fold_inv [OF this, of ?xs] r show ?thesis by (simp add: p)
qed

section \<open>Lookup, validation and strict types\<close>

































section \<open>Steps of a template\<close>


definition pureSettings :: Settings where
  "pureSettings = \<lparr>strictGherkinValidation = False, stepsInvariants = False, pureTextSteps = True\<rparr>"




lemma makeStep_reg [simp]:
  "s_reg (makeStep E h desc df g doc v) = regTextFor E (settings h) v"
  by (simp add: makeStep_def Let_def)
























section \<open>From the pattern text back to the display text\<close>

lemma backslash_pattern: "parseRegExp [BSL, BSL] = Parsed (Seq (Lit BSL) Empty)"
  by code_simp

lemma replaceMatches_backslash:
  "replaceMatches (Seq (Lit BSL) Empty) [] 0 i s = filter (\<lambda>c. c \<noteq> BSL) s"
proof (induction s arbitrary: i)
  case Nil
  show ?case by (simp add: stepChar_def)
next
  case (Cons c cs)
  show ?case
  proof (cases "c = BSL")
    case True
    then show ?thesis using Cons [of "Suc i"] by (simp add: stepChar_def)
  next
    case False
    then show ?thesis using Cons [of "Suc i"] by (simp add: stepChar_def)
  qed
qed

lemma removeBackslashes_filter: "removeBackslashes s = filter (\<lambda>c. c \<noteq> BSL) s"
  by (simp add: removeBackslashes_def replaceRegExp_def backslash_pattern replaceMatches_backslash)

definition compiledText :: "string \<Rightarrow> string" where
  "compiledText step =
     replaceCucumber True (replaceAlternatives (replaceOptional (applySpecialParameters step)))"

definition displayText :: "string \<Rightarrow> string" where
  "displayText s = restorePlaceholders (removeAnchors (filter (\<lambda>c. c \<noteq> BSL) s))"

lemma roundtrip_eq:
  assumes "\<forall>s. filter (\<lambda>c. c \<noteq> BSL) (escapeRegExp E s) = filter (\<lambda>c. c \<noteq> BSL) s"
  shows "getTextForStep (getRegTextForStep E t) = displayText (compiledText t)"
  using assms
  by (simp add: getTextForStep_def getRegTextForStep_def removeBackslashes_filter
                displayText_def compiledText_def)

text \<open>
  C2, evaluated. \<^verbatim>\<open>getTextForStep\<close> first strips every backslash, so only the backslashes
  that \<^verbatim>\<open>escapeRegExp\<close> adds have to go with them (the hypothesis). Then compiling
  "I have " followed by the placeholder and converting the pattern text back gives the
  template again for \<^verbatim>\<open>{int}\<close>, \<^verbatim>\<open>{float}\<close> and \<^verbatim>\<open>{string}\<close>, but not for \<^verbatim>\<open>{word}\<close> and
  \<^verbatim>\<open>{stringInDoubleQuotes}\<close>: their sub-patterns stay in the text, because in
  \<^verbatim>\<open>/\[^s\]\+/g\<close> and \<^verbatim>\<open>/"\[^"\]\+"/g\<close> the character \<^verbatim>\<open>^\<close> is not escaped and asserts the start
  of the input after a character has been read, so the two patterns never match.
\<close>

theorem placeholder_roundtrip:
  assumes "\<forall>s. filter (\<lambda>c. c \<noteq> BSL) (escapeRegExp E s) = filter (\<lambda>c. c \<noteq> BSL) s"
  shows "getTextForStep (getRegTextForStep E ''I have {int}'') = ''I have {int}''
       \<and> getTextForStep (getRegTextForStep E ''I have {float}'') = ''I have {float}''
       \<and> getTextForStep (getRegTextForStep E ''I have {string}'') = ''I have {string}''
       \<and> getTextForStep (getRegTextForStep E ''I have {word}'') = ''I have [^s]+''
       \<and> getTextForStep (getRegTextForStep E ''I have {stringInDoubleQuotes}'')
           = ''I have '' @ [DQ] @ ''[^'' @ [DQ] @ '']+'' @ [DQ]"
proof -
  have "displayText (compiledText ''I have {int}'') = ''I have {int}''" by code_simp
  moreover have "displayText (compiledText ''I have {float}'') = ''I have {float}''" by code_simp
  moreover have "displayText (compiledText ''I have {string}'') = ''I have {string}''" by code_simp
  moreover have "displayText (compiledText ''I have {word}'') = ''I have [^s]+''" by code_simp
  moreover have "displayText (compiledText ''I have {stringInDoubleQuotes}'')
           = ''I have '' @ [DQ] @ ''[^'' @ [DQ] @ '']+'' @ [DQ]" by code_simp
  ultimately show ?thesis by (simp only: roundtrip_eq [OF assms])
qed

lemma escapeChars_filter:
  "filter (\<lambda>c. c \<noteq> BSL) (escapeChars metas s) = filter (\<lambda>c. c \<noteq> BSL) s"
  by (induction s) (simp_all add: escapeChars_def)

text \<open>
  The same for an escape of the usual metacharacters and for no escape at all, with the
  parse of the pattern meant to restore \<^verbatim>\<open>{word}\<close>.
\<close>

theorem placeholder_roundtrip_witness:
  "getTextForStep (getRegTextForStep (modelEnv regexMetas []) ''I have {word}'') = ''I have [^s]+''
   \<and> getTextForStep (getRegTextForStep (modelEnv [] []) ''I have {stringInDoubleQuotes}'')
           = ''I have '' @ [DQ] @ ''[^'' @ [DQ] @ '']+'' @ [DQ]
   \<and> parseRegExp ([BSL] @ ''[^s'' @ [BSL] @ '']'' @ [BSL] @ ''+'')
       = Parsed (Seq (Lit (CHR ''['')) (Seq Bol (Seq (Lit (CHR ''s'')) (Seq (Lit (CHR '']'')) (Seq (Lit (CHR ''+'')) Empty)))))"
proof -
  have a: "\<forall>s. filter (\<lambda>c. c \<noteq> BSL) (escapeRegExp (modelEnv regexMetas []) s) = filter (\<lambda>c. c \<noteq> BSL) s"
    by (simp add: modelEnv_def escapeChars_filter)
  have b: "\<forall>s. filter (\<lambda>c. c \<noteq> BSL) (escapeRegExp (modelEnv [] []) s) = filter (\<lambda>c. c \<noteq> BSL) s"
    by (simp add: modelEnv_def escapeChars_filter)
  have c: "parseRegExp ([BSL] @ ''[^s'' @ [BSL] @ '']'' @ [BSL] @ ''+'')
       = Parsed (Seq (Lit (CHR ''['')) (Seq Bol (Seq (Lit (CHR ''s'')) (Seq (Lit (CHR '']'')) (Seq (Lit (CHR ''+'')) Empty)))))"
    by code_simp
  from placeholder_roundtrip [OF a] placeholder_roundtrip [OF b] c show ?thesis by simp
qed

text \<open>
  C3, evaluated at the template \<^verbatim>\<open>I have {string}\<close> and the line \<^verbatim>\<open>I have "x"\<close>. The full
  pattern matches the line and the partial pattern compiles, but it does not match the
  whole line, a prefix that ends at the last token boundary: \<^verbatim>\<open>getPartialRegText\<close> wraps every
  token in a capturing group, so the back-reference \<^verbatim>\<open>\1\<close> of the sub-pattern of \<^verbatim>\<open>{string}\<close>
  no longer refers to the opening quote but to the first token. This is so in pure-text
  mode, where the sub-patterns are restored after any escape, and in expression mode when
  the escape leaves the sub-pattern as it is.
\<close>

theorem partial_pattern_rejects_full_match:
  "getRegTextForPureStep (modelEnv [] regexMetas) ''I have {string}''
      = ''^I have ('' @ [DQ] @ ''|'' @ [SQ] @ '')[^'' @ [BSL] @ ''1]*'' @ [BSL] @ ''1$''
   \<and> getPartialRegText (modelEnv [] regexMetas) pureSettings ''I have {string}''
      = ''^(^I|$)( |$)(have|$)( |$)(('' @ [DQ] @ ''|'' @ [SQ] @ '')[^'' @ [BSL] @ ''1]*'' @ [BSL] @ ''1$|$)''
   \<and> jsTest (getRegTextForPureStep (modelEnv [] regexMetas) ''I have {string}'')
        (''I have '' @ [DQ] @ ''x'' @ [DQ])
   \<and> jsCompiles (getPartialRegText (modelEnv [] regexMetas) pureSettings ''I have {string}'')
   \<and> \<not> jsTest (getPartialRegText (modelEnv [] regexMetas) pureSettings ''I have {string}'')
        (''I have '' @ [DQ] @ ''x'' @ [DQ])
   \<and> jsTest (getRegTextForStep (modelEnv [] []) ''I have {string}'') (''I have '' @ [DQ] @ ''x'' @ [DQ])
   \<and> jsCompiles (getPartialRegText (modelEnv [] []) plainSettings ''I have {string}'')
   \<and> \<not> jsTest (getPartialRegText (modelEnv [] []) plainSettings ''I have {string}'')
        (''I have '' @ [DQ] @ ''x'' @ [DQ])"
  by code_simp

section \<open>Scenario outlines\<close>




















































end
